theory Spec2Isabelle
  imports Complex_Main "HOL-Library.Word" "HOL-Library.Signed_Division"
begin

section \<open>The InfluxDB storage driver of boxspy (storage/influxdb/influxdb.go)\<close>

text \<open>
  The driver turns a container statistics sample into rows of the time-series store
  (\<open>containerStatsToValues\<close>, \<open>containerFilesystemStatsToSeries\<close>), buffers the rows
  (\<open>AddStats\<close>), and turns rows read from the store back into samples
  (\<open>valuesToContainerStats\<close>, \<open>RecentStats\<close>). Each Go function is a HOL function
  of the same name. Go's \<open>uint64\<close>, \<open>int64\<close>, \<open>int32\<close> and \<open>uint32\<close> are words;
  \<open>int\<close> is taken at 64 bits; a panic and an error return are values of type
  \<open>error\<close>.
\<close>

subsection \<open>Values of type \<open>interface{}\<close>\<close>

text \<open>
  A \<open>float64\<close> is a real number or one of the three special values. The type holds
  more reals than there are doubles; the functions below only compare a float with zero
  and truncate it.
\<close>

datatype float64 = Finite real | PosInf | NegInf | NaN

text \<open>
  The dynamic types a column value can have. \<open>convertToUint64\<close> names six of them in
  its type switch; the others listed here (the remaining integer widths, \<open>float32\<close>,
  \<open>bool\<close>, \<open>string\<close>) stand for every type the switch does not name.
\<close>

datatype val =
    VNil
  | VUint64 "64 word"
  | VInt "64 word"
  | VInt32 "32 word"
  | VInt64 "64 word"
  | VFloat64 float64
  | VUint32 "32 word"
  | VString string
  | VBool bool
  | VUint "64 word"
  | VUint8 "8 word"
  | VUint16 "16 word"
  | VInt8 "8 word"
  | VInt16 "16 word"
  | VFloat32 float64

text \<open>
  Go leaves the result of converting a float to an integer type that cannot represent it
  to the implementation. The two conversions the driver applies take that result from a
  \<open>platform\<close>; inside the representable range they truncate towards zero.
\<close>

record platform =
  float64_to_uint64 :: "float64 \<Rightarrow> 64 word"
  float64_to_int64 :: "float64 \<Rightarrow> 64 word"

definition float64_lt_zero :: "float64 \<Rightarrow> bool" where
  "float64_lt_zero x = (case x of Finite r \<Rightarrow> r < 0 | NegInf \<Rightarrow> True | PosInf \<Rightarrow> False | NaN \<Rightarrow> False)"

definition trunc_real :: "real \<Rightarrow> int" where
  "trunc_real r = (if 0 \<le> r then \<lfloor>r\<rfloor> else \<lceil>r\<rceil>)"

definition uint64_of_float64 :: "platform \<Rightarrow> float64 \<Rightarrow> 64 word" where
  "uint64_of_float64 pf x =
     (case x of
        Finite r \<Rightarrow>
          if 0 \<le> trunc_real r \<and> trunc_real r < 2 ^ 64 then word_of_int (trunc_real r)
          else float64_to_uint64 pf x
      | _ \<Rightarrow> float64_to_uint64 pf x)"

definition int64_of_float64 :: "platform \<Rightarrow> float64 \<Rightarrow> 64 word" where
  "int64_of_float64 pf x =
     (case x of
        Finite r \<Rightarrow>
          if - (2 ^ 63) \<le> trunc_real r \<and> trunc_real r < 2 ^ 63 then word_of_int (trunc_real r)
          else float64_to_int64 pf x
      | _ \<Rightarrow> float64_to_int64 pf x)"

text \<open>Go's \<open>/\<close> and \<open>%\<close> on \<open>int64\<close>: the quotient is truncated towards zero.\<close>

definition int64_div :: "64 word \<Rightarrow> 64 word \<Rightarrow> 64 word" where
  "int64_div x y = word_of_int (sint x sdiv sint y)"

definition int64_rem :: "64 word \<Rightarrow> 64 word \<Rightarrow> 64 word" where
  "int64_rem x y = word_of_int (sint x smod sint y)"

subsection \<open>\<open>time.Time\<close>\<close>

text \<open>
  A time is a number of seconds since the Unix epoch and a nanosecond part in
  \<open>[0, 10^9)\<close>. The zero \<open>Time\<close> is January 1 of year 1, which is 62135596800 seconds
  before the epoch. \<open>UnixNano\<close> is computed in \<open>int64\<close> and wraps.
\<close>

record Time =
  unixSec :: int
  nsec :: int

definition zeroTime :: Time where
  "zeroTime = \<lparr>unixSec = - 62135596800, nsec = 0\<rparr>"

definition IsZero :: "Time \<Rightarrow> bool" where
  "IsZero t = (unixSec t = - 62135596800 \<and> nsec t = 0)"

definition UnixNano :: "Time \<Rightarrow> 64 word" where
  "UnixNano t = word_of_int (unixSec t * 1000000000 + nsec t)"

text \<open>
  \<open>time.Unix(sec, nsec)\<close> accepts a nanosecond part outside \<open>[0, 10^9)\<close> and
  normalises it. The driver calls it with a count of milliseconds divided by 1000, so
  the seconds stay far inside \<open>int64\<close>.
\<close>

definition time_Unix :: "64 word \<Rightarrow> 64 word \<Rightarrow> Time" where
  "time_Unix s n =
     (let sec = sint s; ns = sint n in
      if ns < 0 \<or> 1000000000 \<le> ns then
        (let k = ns sdiv 1000000000;
             sec = sec + k;
             ns = ns - k * 1000000000
         in if ns < 0 then \<lparr>unixSec = sec - 1, nsec = ns + 1000000000\<rparr>
            else \<lparr>unixSec = sec, nsec = ns\<rparr>)
      else \<lparr>unixSec = sec, nsec = ns\<rparr>)"

text \<open>
  \<open>t.Sub(u)\<close> is a \<open>Duration\<close>, an \<open>int64\<close> count of nanoseconds, and saturates at the
  ends of the \<open>int64\<close> range.
\<close>

definition time_Sub :: "Time \<Rightarrow> Time \<Rightarrow> int" where
  "time_Sub t u =
     (let d = (unixSec t - unixSec u) * 1000000000 + (nsec t - nsec u) in
      if d < - (2 ^ 63) then - (2 ^ 63) else if 2 ^ 63 \<le> d then 2 ^ 63 - 1 else d)"

subsection \<open>The data model\<close>

text \<open>
  Modelled from the spec: the records of package \<open>info\<close> (\<open>ContainerReference\<close>,
  \<open>ContainerStats\<close> and its parts) are declared outside the two source files. The fields
  are the ones the driver reads or writes; their types are fixed by the driver's own
  assignments (a \<open>uint64\<close> from \<open>convertToUint64\<close>, a \<open>string\<close> from a type assertion,
  a \<open>time.Time\<close> from \<open>time.Unix\<close>). \<open>Cpu\<close>, \<open>Memory\<close> and \<open>Network\<close> are pointers:
  \<open>None\<close> is \<open>nil\<close>. The usage field of \<open>FsStats\<close> is \<open>FsUsage\<close> here, since
  \<open>Usage\<close> names the memory field.
\<close>

record ContainerReference =
  Name :: string
  Aliases :: "string list"

record CpuStats =
  Usage_Total :: "64 word"

record MemoryStats =
  Usage :: "64 word"
  WorkingSet :: "64 word"

record NetworkStats =
  RxBytes :: "64 word"
  RxErrors :: "64 word"
  TxBytes :: "64 word"
  TxErrors :: "64 word"

record FsStats =
  Device :: string
  Limit :: "64 word"
  FsUsage :: "64 word"

record ContainerStats =
  Timestamp :: Time
  Cpu :: "CpuStats option"
  Memory :: "MemoryStats option"
  Network :: "NetworkStats option"
  Filesystem :: "FsStats list"

text \<open>\<open>influxdb.Series\<close> of the client library: a table name, the columns, and the points.\<close>

record Series =
  SeriesName :: string
  Columns :: "string list"
  Points :: "val list list"

datatype conv_error = NegativeValue val | UnknownType

text \<open>
  One constructor for each \<open>fmt.Errorf\<close> of the driver, carrying what the format string
  prints; \<open>ErrClient\<close> is an error of the client library, passed on as it is; the two
  panics are the run-time errors of an index out of range and of a nil pointer.
\<close>

datatype error =
    ErrDifferentMachine
  | ErrMachineNotString val
  | ErrFsNameNotString val
  | ErrFsLimitInvalid val conv_error
  | ErrFsUsageInvalid val conv_error
  | ErrColumnInvalid string val conv_error
  | ErrWriteFailed string
  | ErrClient string
  | PanicIndexOutOfRange
  | PanicNilPointer

datatype TimePrecision = Second | Millisecond | Microsecond

datatype call = WriteCall "Series list" TimePrecision | QueryCall string

text \<open>
  The client of the store is outside the repository. It is modelled by what it answers:
  \<open>writeSeries\<close> gives the error of a write (\<open>None\<close> for success), \<open>queryResult\<close> the
  result of a query; \<open>calls\<close> records every call made, oldest first.
\<close>

record client =
  writeSeries :: "Series list \<Rightarrow> string option"
  queryResult :: "string \<Rightarrow> string + Series list"
  calls :: "call list"

datatype ready_fn = DefaultReadyToFlush | Overridden

text \<open>
  \<open>readyToFlush\<close> is a function value: the default one, or one installed by
  \<open>OverrideReadyToFlush\<close>, whose answer at a call is an input (\<open>override_says\<close>
  below). The mutex has no field: \<open>Lock\<close> and the deferred \<open>Unlock\<close> are paired
  inside one closure of \<open>AddStats\<close>, which is one function here.
\<close>

record influxdbStorage =
  client :: "client option"
  machineName :: string
  tableName :: string
  bufferDuration :: int
  lastWrite :: Time
  series :: "Series list"
  readyToFlush :: ready_fn

definition colTimestamp :: string where "colTimestamp = ''time''"
definition colMachineName :: string where "colMachineName = ''machine''"
definition colContainerName :: string where "colContainerName = ''container_name''"
definition colCpuCumulativeUsage :: string where "colCpuCumulativeUsage = ''cpu_cumulative_usage''"
definition colMemoryUsage :: string where "colMemoryUsage = ''memory_usage''"
definition colMemoryWorkingSet :: string where "colMemoryWorkingSet = ''memory_working_set''"
definition colRxBytes :: string where "colRxBytes = ''rx_bytes''"
definition colRxErrors :: string where "colRxErrors = ''rx_errors''"
definition colTxBytes :: string where "colTxBytes = ''tx_bytes''"
definition colTxErrors :: string where "colTxErrors = ''tx_errors''"
definition colFsDevice :: string where "colFsDevice = ''fs_device''"
definition colFsLimit :: string where "colFsLimit = ''fs_limit''"
definition colFsUsage :: string where "colFsUsage = ''fs_usage''"

subsection \<open>Slices and \<open>append\<close>\<close>

text \<open>
  The write path builds its rows with \<open>append\<close> on slices that it also hands to
  \<open>getSeriesDefaultValues\<close>, so slices are modelled with their memory. A slice is a
  header: the address of a backing array, a length and a capacity. Passing a slice
  copies the header and shares the array. An arena holds the backing arrays of one
  element type by address; \<open>top\<close> is the next free address.

  \<open>append\<close> writes in place when the capacity allows and returns a header one longer;
  otherwise it copies the elements into a new array. The capacity of the new array is
  the implementation's choice; \<open>newcap\<close> is the rule of the Go runtime, and the
  proofs use of it only that the new capacity is larger. The unused cells of a new array
  hold the zero value \<open>z\<close> of the element type.
\<close>

record slice =
  sptr :: nat
  slen :: nat
  scap :: nat

record 'a arena =
  cells :: "nat \<Rightarrow> 'a list"
  top :: nat

definition nil_slice :: slice where
  "nil_slice = \<lparr>sptr = 0, slen = 0, scap = 0\<rparr>"

text \<open>\<open>make([]T, 0)\<close>: not nil, but with no cell either.\<close>

definition make_empty :: slice where
  "make_empty = \<lparr>sptr = 0, slen = 0, scap = 0\<rparr>"

definition elems :: "'a arena \<Rightarrow> slice \<Rightarrow> 'a list" where
  "elems a s = take (slen s) (cells a (sptr s))"

definition newcap :: "nat \<Rightarrow> nat" where
  "newcap c = (if c = 0 then 1 else if c < 1024 then 2 * c else c + c div 4)"

definition append_go :: "'a \<Rightarrow> 'a arena \<Rightarrow> slice \<Rightarrow> 'a \<Rightarrow> 'a arena \<times> slice" where
  "append_go z a s v =
     (if slen s < scap s then
        (a\<lparr>cells := (cells a)(sptr s := (cells a (sptr s))[slen s := v])\<rparr>,
         s\<lparr>slen := slen s + 1\<rparr>)
      else
        (a\<lparr>cells := (cells a)(top a := elems a s @ v # replicate (newcap (scap s) - slen s - 1) z),
           top := top a + 1\<rparr>,
         \<lparr>sptr = top a, slen = slen s + 1, scap = newcap (scap s)\<rparr>))"

record heap =
  str_mem :: "string arena"
  val_mem :: "val arena"

definition append_str :: "heap \<Rightarrow> slice \<Rightarrow> string \<Rightarrow> heap \<times> slice" where
  "append_str h s v = (let (a, s') = append_go [] (str_mem h) s v in (h\<lparr>str_mem := a\<rparr>, s'))"

definition append_val :: "heap \<Rightarrow> slice \<Rightarrow> val \<Rightarrow> heap \<times> slice" where
  "append_val h s v = (let (a, s') = append_go VNil (val_mem h) s v in (h\<lparr>val_mem := a\<rparr>, s'))"

subsection \<open>The write path: from a sample to rows\<close>

text \<open>
  \<open>getSeriesDefaultValues\<close> receives the two slices by value and has no result. Its
  appends change its own copies of the headers, \<open>columns\<close> and \<open>values\<close> below, and the
  memory; \<open>getSeriesDefaultValues_locals\<close> is the state at the end of its body, and the
  caller gets the memory alone.
\<close>

definition getSeriesDefaultValues_locals ::
  "influxdbStorage \<Rightarrow> ContainerReference \<Rightarrow> ContainerStats \<Rightarrow> slice \<Rightarrow> slice \<Rightarrow> heap
     \<Rightarrow> heap \<times> slice \<times> slice" where
  "getSeriesDefaultValues_locals self ref stats columns values h =
     (let (h, columns) = append_str h columns colTimestamp;
          (h, values) = append_val h values (VInt64 (int64_div (UnixNano (Timestamp stats)) 1000));
          (h, columns) = append_str h columns colMachineName;
          (h, values) = append_val h values (VString (machineName self));
          (h, columns) = append_str h columns colContainerName;
          (h, values) =
            (if length (Aliases ref) > 0 then append_val h values (VString (Aliases ref ! 0))
             else append_val h values (VString (Name ref)))
      in (h, columns, values))"

definition getSeriesDefaultValues ::
  "influxdbStorage \<Rightarrow> ContainerReference \<Rightarrow> ContainerStats \<Rightarrow> slice \<Rightarrow> slice \<Rightarrow> heap \<Rightarrow> heap" where
  "getSeriesDefaultValues self ref stats columns values h =
     fst (getSeriesDefaultValues_locals self ref stats columns values h)"

text \<open>
  \<open>newSeries\<close> keeps the two slices in a new \<open>Series\<close> with one point. Nothing appends
  to them or writes their arrays afterwards (the callers drop their headers), so the
  series is given the elements the slices have at this moment.
\<close>

definition newSeries :: "influxdbStorage \<Rightarrow> heap \<Rightarrow> slice \<Rightarrow> slice \<Rightarrow> Series" where
  "newSeries self h columns points =
     \<lparr>SeriesName = tableName self,
      Columns = elems (str_mem h) columns,
      Points = [elems (val_mem h) points]\<rparr>"

text \<open>
  The loop of \<open>containerFilesystemStatsToSeries\<close> over \<open>stats.Filesystem\<close>, with the
  result slice (\<open>series\<close> in the source, \<open>out\<close> here) as accumulator. The test for
  an empty list before the loop returns the same \<open>nil\<close> result as the loop over no
  element.
\<close>

fun fs_loop ::
  "influxdbStorage \<Rightarrow> ContainerReference \<Rightarrow> ContainerStats \<Rightarrow> FsStats list \<Rightarrow> Series list \<Rightarrow> heap
     \<Rightarrow> heap \<times> Series list" where
  "fs_loop self ref stats [] out h = (h, out)"
| "fs_loop self ref stats (fsStat # rest) out h =
     (let columns = make_empty;
          values = make_empty;
          h = getSeriesDefaultValues self ref stats columns values h;
          (h, columns) = append_str h columns colFsDevice;
          (h, values) = append_val h values (VString (Device fsStat));
          (h, columns) = append_str h columns colFsLimit;
          (h, values) = append_val h values (VUint64 (Limit fsStat));
          (h, columns) = append_str h columns colFsUsage;
          (h, values) = append_val h values (VUint64 (FsUsage fsStat))
      in fs_loop self ref stats rest (out @ [newSeries self h columns values]) h)"

definition containerFilesystemStatsToSeries ::
  "influxdbStorage \<Rightarrow> ContainerReference \<Rightarrow> ContainerStats \<Rightarrow> heap \<Rightarrow> heap \<times> Series list" where
  "containerFilesystemStatsToSeries self ref stats h =
     (if length (Filesystem stats) = 0 then (h, [])
      else fs_loop self ref stats (Filesystem stats) [] h)"

text \<open>
  \<open>containerStatsToValues\<close> starts from its two named results, which are \<open>nil\<close>. It
  reads through \<open>stats.Cpu\<close> and \<open>stats.Memory\<close>, which panics on a nil pointer.
\<close>

definition containerStatsToValues ::
  "influxdbStorage \<Rightarrow> ContainerReference \<Rightarrow> ContainerStats \<Rightarrow> heap
     \<Rightarrow> error + (heap \<times> slice \<times> slice)" where
  "containerStatsToValues self ref stats h =
     (let columns = nil_slice;
          values = nil_slice;
          h = getSeriesDefaultValues self ref stats columns values h;
          (h, columns) = append_str h columns colCpuCumulativeUsage
      in (case Cpu stats of
            None \<Rightarrow> Inl PanicNilPointer
          | Some cpu \<Rightarrow>
     (let (h, values) = append_val h values (VUint64 (Usage_Total cpu));
          (h, columns) = append_str h columns colMemoryUsage
      in (case Memory stats of
            None \<Rightarrow> Inl PanicNilPointer
          | Some mem \<Rightarrow>
     (let (h, values) = append_val h values (VUint64 (Usage mem));
          (h, columns) = append_str h columns colMemoryWorkingSet;
          (h, values) = append_val h values (VUint64 (WorkingSet mem))
      in (case Network stats of
            None \<Rightarrow> Inr (h, columns, values)
          | Some net \<Rightarrow>
     (let (h, columns) = append_str h columns colRxBytes;
          (h, values) = append_val h values (VUint64 (RxBytes net));
          (h, columns) = append_str h columns colRxErrors;
          (h, values) = append_val h values (VUint64 (RxErrors net));
          (h, columns) = append_str h columns colTxBytes;
          (h, values) = append_val h values (VUint64 (TxBytes net));
          (h, columns) = append_str h columns colTxErrors;
          (h, values) = append_val h values (VUint64 (TxErrors net))
      in Inr (h, columns, values))))))))"

subsection \<open>The read path: from a row to a sample\<close>

definition convertToUint64 :: "platform \<Rightarrow> val \<Rightarrow> conv_error + 64 word" where
  "convertToUint64 pf v =
     (case v of
        VNil \<Rightarrow> Inr 0
      | VUint64 x \<Rightarrow> Inr x
      | VInt x \<Rightarrow> if sint x < 0 then Inl (NegativeValue v) else Inr x
      | VInt32 x \<Rightarrow> if sint x < 0 then Inl (NegativeValue v) else Inr (scast x)
      | VInt64 x \<Rightarrow> if sint x < 0 then Inl (NegativeValue v) else Inr x
      | VFloat64 x \<Rightarrow> if float64_lt_zero x then Inl (NegativeValue v) else Inr (uint64_of_float64 pf x)
      | VUint32 x \<Rightarrow> Inr (ucast x)
      | _ \<Rightarrow> Inl UnknownType)"

text \<open>
  The body of the loop of \<open>valuesToContainerStats\<close>: the \<open>switch\<close> on the column and
  the test of \<open>err\<close> that follows it. The cases from \<open>cpu_cumulative_usage\<close> to
  \<open>tx_errors\<close> assign \<open>err\<close>, and the test after the switch returns the column error
  when it is not nil; every other case leaves \<open>err\<close> as it was at the head of the
  iteration, which is nil, so the test passes. The two filesystem cases with a number
  declare an \<open>err\<close> of their own and return their own error. A field of \<open>stats.Cpu\<close>,
  \<open>stats.Memory\<close> or \<open>stats.Network\<close> is written through the pointer \<open>ptr\<close>, and
  the assignment panics on a nil pointer whatever the conversion returned.
\<close>

definition set_field ::
  "platform \<Rightarrow> string \<Rightarrow> val \<Rightarrow> 'p option \<Rightarrow> ('p \<Rightarrow> 64 word \<Rightarrow> ContainerStats)
     \<Rightarrow> error + ContainerStats" where
  "set_field pf col v ptr assign =
     (case ptr of
        None \<Rightarrow> Inl PanicNilPointer
      | Some p \<Rightarrow>
          (case convertToUint64 pf v of
             Inl err \<Rightarrow> Inl (ErrColumnInvalid col v err)
           | Inr x \<Rightarrow> Inr (assign p x)))"

text \<open>
  A filesystem column writes slot 0 of \<open>stats.Filesystem\<close>: it appends a new entry, zero
  but for the one field, when the list is empty, and overwrites the field otherwise.
\<close>

definition set_Filesystem :: "ContainerStats \<Rightarrow> FsStats \<Rightarrow> (FsStats \<Rightarrow> FsStats) \<Rightarrow> ContainerStats" where
  "set_Filesystem stats fresh f =
     (if length (Filesystem stats) = 0 then stats\<lparr>Filesystem := Filesystem stats @ [fresh]\<rparr>
      else stats\<lparr>Filesystem := (Filesystem stats)[0 := f (Filesystem stats ! 0)]\<rparr>)"

definition valuesToContainerStats_body ::
  "platform \<Rightarrow> influxdbStorage \<Rightarrow> ContainerStats \<Rightarrow> string \<Rightarrow> val \<Rightarrow> error + ContainerStats" where
  "valuesToContainerStats_body pf self stats col v =
     (if col = colTimestamp then
        (case v of
           VFloat64 f64sec \<Rightarrow>
             if IsZero (Timestamp stats) then
               Inr (stats\<lparr>Timestamp :=
                      time_Unix (int64_div (int64_of_float64 pf f64sec) 1000)
                                (int64_rem (int64_of_float64 pf f64sec) 1000 * 1000000)\<rparr>)
             else Inr stats
         | _ \<Rightarrow> Inr stats)
      else if col = colMachineName then
        (case v of
           VString m \<Rightarrow> if m \<noteq> machineName self then Inl ErrDifferentMachine else Inr stats
         | _ \<Rightarrow> Inl (ErrMachineNotString v))
      else if col = colCpuCumulativeUsage then
        set_field pf col v (Cpu stats) (\<lambda>c x. stats\<lparr>Cpu := Some (c\<lparr>Usage_Total := x\<rparr>)\<rparr>)
      else if col = colMemoryUsage then
        set_field pf col v (Memory stats) (\<lambda>m x. stats\<lparr>Memory := Some (m\<lparr>Usage := x\<rparr>)\<rparr>)
      else if col = colMemoryWorkingSet then
        set_field pf col v (Memory stats) (\<lambda>m x. stats\<lparr>Memory := Some (m\<lparr>WorkingSet := x\<rparr>)\<rparr>)
      else if col = colRxBytes then
        set_field pf col v (Network stats) (\<lambda>n x. stats\<lparr>Network := Some (n\<lparr>RxBytes := x\<rparr>)\<rparr>)
      else if col = colRxErrors then
        set_field pf col v (Network stats) (\<lambda>n x. stats\<lparr>Network := Some (n\<lparr>RxErrors := x\<rparr>)\<rparr>)
      else if col = colTxBytes then
        set_field pf col v (Network stats) (\<lambda>n x. stats\<lparr>Network := Some (n\<lparr>TxBytes := x\<rparr>)\<rparr>)
      else if col = colTxErrors then
        set_field pf col v (Network stats) (\<lambda>n x. stats\<lparr>Network := Some (n\<lparr>TxErrors := x\<rparr>)\<rparr>)
      else if col = colFsDevice then
        (case v of
           VString device \<Rightarrow>
             Inr (set_Filesystem stats \<lparr>Device = device, Limit = 0, FsUsage = 0\<rparr>
                    (\<lambda>f. f\<lparr>Device := device\<rparr>))
         | _ \<Rightarrow> Inl (ErrFsNameNotString v))
      else if col = colFsLimit then
        (case convertToUint64 pf v of
           Inl err \<Rightarrow> Inl (ErrFsLimitInvalid v err)
         | Inr limit \<Rightarrow>
             Inr (set_Filesystem stats \<lparr>Device = [], Limit = limit, FsUsage = 0\<rparr>
                    (\<lambda>f. f\<lparr>Limit := limit\<rparr>)))
      else if col = colFsUsage then
        (case convertToUint64 pf v of
           Inl err \<Rightarrow> Inl (ErrFsUsageInvalid v err)
         | Inr usage \<Rightarrow>
             Inr (set_Filesystem stats \<lparr>Device = [], Limit = 0, FsUsage = usage\<rparr>
                    (\<lambda>f. f\<lparr>FsUsage := usage\<rparr>)))
      else Inr stats)"

text \<open>
  The loop \<open>for i, col := range columns\<close> reads \<open>values[i]\<close>, which panics when
  \<open>values\<close> is shorter than \<open>columns\<close>. The recursion walks the two lists together.
\<close>

fun valuesToContainerStats_loop ::
  "platform \<Rightarrow> influxdbStorage \<Rightarrow> string list \<Rightarrow> val list \<Rightarrow> ContainerStats \<Rightarrow> error + ContainerStats" where
  "valuesToContainerStats_loop pf self [] vs stats = Inr stats"
| "valuesToContainerStats_loop pf self (col # cols) [] stats = Inl PanicIndexOutOfRange"
| "valuesToContainerStats_loop pf self (col # cols) (v # vs) stats =
     (case valuesToContainerStats_body pf self stats col v of
        Inl err \<Rightarrow> Inl err
      | Inr stats' \<Rightarrow> valuesToContainerStats_loop pf self cols vs stats')"

definition emptyStats :: ContainerStats where
  "emptyStats =
     \<lparr>Timestamp = zeroTime,
      Cpu = Some \<lparr>Usage_Total = 0\<rparr>,
      Memory = Some \<lparr>Usage = 0, WorkingSet = 0\<rparr>,
      Network = Some \<lparr>RxBytes = 0, RxErrors = 0, TxBytes = 0, TxErrors = 0\<rparr>,
      Filesystem = []\<rparr>"

definition valuesToContainerStats ::
  "platform \<Rightarrow> influxdbStorage \<Rightarrow> string list \<Rightarrow> val list \<Rightarrow> error + ContainerStats" where
  "valuesToContainerStats pf self columns values =
     valuesToContainerStats_loop pf self columns values emptyStats"

subsection \<open>The write buffer\<close>

text \<open>
  What a call of \<open>AddStats\<close> reads from outside: the clock when \<open>time.Since\<close> reads it,
  the clock when \<open>time.Now\<close> stamps the flush, and the answer of an installed
  \<open>readyToFlush\<close>.
\<close>

record environment =
  now_since :: Time
  now_stamp :: Time
  override_says :: bool

definition OverrideReadyToFlush :: "influxdbStorage \<Rightarrow> influxdbStorage" where
  "OverrideReadyToFlush self = self\<lparr>readyToFlush := Overridden\<rparr>"

definition defaultReadyToFlush :: "environment \<Rightarrow> influxdbStorage \<Rightarrow> bool" where
  "defaultReadyToFlush env self = (bufferDuration self \<le> time_Sub (now_since env) (lastWrite self))"

definition call_readyToFlush :: "environment \<Rightarrow> influxdbStorage \<Rightarrow> bool" where
  "call_readyToFlush env self =
     (case readyToFlush self of
        DefaultReadyToFlush \<Rightarrow> defaultReadyToFlush env self
      | Overridden \<Rightarrow> override_says env)"

text \<open>
  The closure of \<open>AddStats\<close> that runs between \<open>Lock\<close> and the deferred \<open>Unlock\<close>.
  Its results are the storage, the memory, and \<open>seriesToFlush\<close>, which is \<open>nil\<close>
  unless the flush is due.
\<close>

definition AddStats_locked ::
  "environment \<Rightarrow> influxdbStorage \<Rightarrow> ContainerReference \<Rightarrow> ContainerStats \<Rightarrow> heap
     \<Rightarrow> error + (influxdbStorage \<times> heap \<times> Series list)" where
  "AddStats_locked env self ref stats h =
     (case containerStatsToValues self ref stats h of
        Inl err \<Rightarrow> Inl err
      | Inr (h, columns, values) \<Rightarrow>
          (let self = self\<lparr>series := series self @ [newSeries self h columns values]\<rparr>;
               (h, fs) = containerFilesystemStatsToSeries self ref stats h;
               self = self\<lparr>series := series self @ fs\<rparr>
           in if call_readyToFlush env self then
                Inr (self\<lparr>series := [], lastWrite := now_stamp env\<rparr>, h, series self)
              else Inr (self, h, [])))"

text \<open>
  \<open>AddStats\<close> returns an error or \<open>nil\<close> (\<open>None\<close>), and leaves a storage and a memory.
  The write goes to the client after the closure has returned.
\<close>

definition AddStats ::
  "environment \<Rightarrow> influxdbStorage \<Rightarrow> ContainerReference \<Rightarrow> ContainerStats option \<Rightarrow> heap
     \<Rightarrow> error option \<times> influxdbStorage \<times> heap" where
  "AddStats env self ref stats h =
     (case stats of
        None \<Rightarrow> (None, self, h)
      | Some st \<Rightarrow>
          if Cpu st = None \<or> Memory st = None then (None, self, h)
          else
            (case AddStats_locked env self ref st h of
               Inl err \<Rightarrow> (Some err, self, h)
             | Inr (self, h, seriesToFlush) \<Rightarrow>
                 if length seriesToFlush > 0 then
                   (case client self of
                      None \<Rightarrow> (Some PanicNilPointer, self, h)
                    | Some c \<Rightarrow>
                        (let self = self\<lparr>client :=
                                     Some (c\<lparr>calls := calls c @ [WriteCall seriesToFlush Microsecond]\<rparr>)\<rparr>
                         in case writeSeries c seriesToFlush of
                              Some err \<Rightarrow> (Some (ErrWriteFailed err), self, h)
                            | None \<Rightarrow> (None, self, h)))
                 else (None, self, h)))"

subsection \<open>Reading the recent samples\<close>

text \<open>\<open>%v\<close> of a positive \<open>int\<close>: its decimal digits.\<close>

function show_nat :: "nat \<Rightarrow> string" where
  "show_nat n =
     (if n < 10 then [''0123456789'' ! n]
      else show_nat (n div 10) @ [''0123456789'' ! (n mod 10)])"
  by pat_completeness auto
termination
  by (relation "measure (\<lambda>n. n)") auto

declare show_nat.simps [simp del]

text \<open>
  The two loops of \<open>RecentStats\<close> run from the last index down to 0. The counter here
  is the index plus one, so that it is a natural number: \<open>Suc j\<close> stands for the index
  \<open>j\<close>, which is inside the list. \<open>valuesToContainerStats\<close> returns a nil sample only
  together with an error, so the \<open>continue\<close> for a nil sample is never taken.
\<close>

fun points_loop ::
  "platform \<Rightarrow> influxdbStorage \<Rightarrow> Series \<Rightarrow> nat \<Rightarrow> ContainerStats list \<Rightarrow> error + ContainerStats list" where
  "points_loop pf self s 0 statsList = Inr statsList"
| "points_loop pf self s (Suc j) statsList =
     (case valuesToContainerStats pf self (Columns s) (Points s ! j) of
        Inl err \<Rightarrow> Inl err
      | Inr stats \<Rightarrow> points_loop pf self s j (statsList @ [stats]))"

fun series_loop ::
  "platform \<Rightarrow> influxdbStorage \<Rightarrow> Series list \<Rightarrow> nat \<Rightarrow> ContainerStats list \<Rightarrow> error + ContainerStats list" where
  "series_loop pf self ss 0 statsList = Inr statsList"
| "series_loop pf self ss (Suc i) statsList =
     (case points_loop pf self (ss ! i) (length (Points (ss ! i))) statsList of
        Inl err \<Rightarrow> Inl err
      | Inr statsList' \<Rightarrow> series_loop pf self ss i statsList')"

definition RecentStats_query :: "influxdbStorage \<Rightarrow> string \<Rightarrow> 64 word \<Rightarrow> string" where
  "RecentStats_query self containerName numStats =
     (let q = ''select * from '' @ tableName self @ '' where '' @ colContainerName @ ''=''
                @ [CHR 0x27] @ containerName @ [CHR 0x27] @ '' and '' @ colMachineName @ ''=''
                @ [CHR 0x27] @ machineName self @ [CHR 0x27]
      in if 0 < sint numStats then q @ '' limit '' @ show_nat (nat (sint numStats)) else q)"

definition RecentStats ::
  "platform \<Rightarrow> influxdbStorage \<Rightarrow> string \<Rightarrow> 64 word
     \<Rightarrow> (error + ContainerStats list) \<times> influxdbStorage" where
  "RecentStats pf self containerName numStats =
     (if numStats = 0 then (Inr [], self)
      else
        (case client self of
           None \<Rightarrow> (Inl PanicNilPointer, self)
         | Some c \<Rightarrow>
             (let q = RecentStats_query self containerName numStats;
                  self = self\<lparr>client := Some (c\<lparr>calls := calls c @ [QueryCall q]\<rparr>)\<rparr>
              in case queryResult c q of
                   Inl err \<Rightarrow> (Inl (ErrClient err), self)
                 | Inr ss \<Rightarrow> (series_loop pf self ss (length ss) [], self))))"

definition Close :: "influxdbStorage \<Rightarrow> error option \<times> influxdbStorage" where
  "Close self = (None, self\<lparr>client := None\<rparr>)"

subsection \<open>What the rows and the results are compared with\<close>

text \<open>
  A slice is well formed in an arena when its length is within its capacity and its
  capacity within its backing array; it is allocated when its array, if it has a cell at
  all, lies below \<open>top\<close>. A slice \<open>s\<close> that was copied from \<open>t\<close> and then appended to
  stays behind \<open>t\<close>: it has moved to another array or is at least as long.
\<close>

definition slice_ok :: "'a arena \<Rightarrow> slice \<Rightarrow> bool" where
  "slice_ok a s = (slen s \<le> scap s \<and> scap s \<le> length (cells a (sptr s)))"

definition slice_alloc :: "'a arena \<Rightarrow> slice \<Rightarrow> bool" where
  "slice_alloc a t = (slice_ok a t \<and> (scap t = 0 \<or> sptr t < top a))"

definition behind :: "slice \<Rightarrow> slice \<Rightarrow> bool" where
  "behind t s = (sptr s \<noteq> sptr t \<or> slen t \<le> slen s)"

text \<open>
  \<open>holds h c v cs vs\<close>: in memory \<open>h\<close> the slices \<open>c\<close> and \<open>v\<close> are well formed and
  hold the columns \<open>cs\<close> and the values \<open>vs\<close>. \<open>caller_view\<close> is the same for the
  slices \<open>c\<close> and \<open>v\<close> of a caller while a callee appends to its copies \<open>c'\<close> and
  \<open>v'\<close>.
\<close>

definition holds :: "heap \<Rightarrow> slice \<Rightarrow> slice \<Rightarrow> string list \<Rightarrow> val list \<Rightarrow> bool" where
  "holds h c v cs vs =
     (slice_ok (str_mem h) c \<and> slice_ok (val_mem h) v \<and>
      elems (str_mem h) c = cs \<and> elems (val_mem h) v = vs)"

definition caller_view ::
  "heap \<Rightarrow> slice \<Rightarrow> slice \<Rightarrow> slice \<Rightarrow> slice \<Rightarrow> string list \<Rightarrow> val list \<Rightarrow> bool" where
  "caller_view h c v c' v' cs vs =
     (slice_alloc (str_mem h) c \<and> slice_alloc (val_mem h) v \<and> behind c c' \<and> behind v v' \<and>
      elems (str_mem h) c = cs \<and> elems (val_mem h) v = vs)"

text \<open>
  The rows that the write path is shown to emit for a sample with \<open>Cpu\<close> and \<open>Memory\<close>:
  the row of the core metrics, then one row for each filesystem entry.
\<close>

definition core_columns :: "ContainerStats \<Rightarrow> string list" where
  "core_columns stats =
     [colCpuCumulativeUsage, colMemoryUsage, colMemoryWorkingSet] @
     (case Network stats of
        None \<Rightarrow> []
      | Some net \<Rightarrow> [colRxBytes, colRxErrors, colTxBytes, colTxErrors])"

definition core_values :: "ContainerStats \<Rightarrow> val list" where
  "core_values stats =
     [VUint64 (Usage_Total (the (Cpu stats))),
      VUint64 (Usage (the (Memory stats))),
      VUint64 (WorkingSet (the (Memory stats)))] @
     (case Network stats of
        None \<Rightarrow> []
      | Some net \<Rightarrow>
          [VUint64 (RxBytes net), VUint64 (RxErrors net), VUint64 (TxBytes net), VUint64 (TxErrors net)])"

definition core_series :: "influxdbStorage \<Rightarrow> ContainerStats \<Rightarrow> Series" where
  "core_series self stats =
     \<lparr>SeriesName = tableName self, Columns = core_columns stats, Points = [core_values stats]\<rparr>"

definition fs_series :: "influxdbStorage \<Rightarrow> FsStats \<Rightarrow> Series" where
  "fs_series self fsStat =
     \<lparr>SeriesName = tableName self,
      Columns = [colFsDevice, colFsLimit, colFsUsage],
      Points = [[VString (Device fsStat), VUint64 (Limit fsStat), VUint64 (FsUsage fsStat)]]\<rparr>"

definition rows_of :: "influxdbStorage \<Rightarrow> ContainerStats \<Rightarrow> Series list" where
  "rows_of self stats = core_series self stats # map (fs_series self) (Filesystem stats)"

text \<open>
  The round trip: the columns and values that \<open>containerStatsToValues\<close> returns, given
  to \<open>valuesToContainerStats\<close> of the same storage. \<open>truncate_us\<close> cuts a time to
  whole microseconds.
\<close>

definition roundtrip ::
  "platform \<Rightarrow> influxdbStorage \<Rightarrow> ContainerReference \<Rightarrow> ContainerStats \<Rightarrow> heap
     \<Rightarrow> error + ContainerStats" where
  "roundtrip pf self ref stats h =
     (case containerStatsToValues self ref stats h of
        Inl e \<Rightarrow> Inl e
      | Inr (h', columns, values) \<Rightarrow>
          valuesToContainerStats pf self (elems (str_mem h') columns) (elems (val_mem h') values))"

definition truncate_us :: "Time \<Rightarrow> Time" where
  "truncate_us t = t\<lparr>nsec := nsec t - nsec t mod 1000\<rparr>"

text \<open>The shape of a sample under reconstruction, and the columns with a number.\<close>

definition ptrs_ok :: "ContainerStats \<Rightarrow> bool" where
  "ptrs_ok stats =
     (Cpu stats \<noteq> None \<and> Memory stats \<noteq> None \<and> Network stats \<noteq> None \<and>
      length (Filesystem stats) \<le> 1)"

definition zeroNetwork :: NetworkStats where
  "zeroNetwork = \<lparr>RxBytes = 0, RxErrors = 0, TxBytes = 0, TxErrors = 0\<rparr>"

definition network_columns :: "string list" where
  "network_columns = [colRxBytes, colRxErrors, colTxBytes, colTxErrors]"

definition numeric_columns :: "string list" where
  "numeric_columns =
     [colCpuCumulativeUsage, colMemoryUsage, colMemoryWorkingSet,
      colRxBytes, colRxErrors, colTxBytes, colTxErrors, colFsLimit, colFsUsage]"

text \<open>
  The error with which a failed conversion in column \<open>col\<close> leaves
  \<open>valuesToContainerStats\<close>, and the six types that the switch of \<open>convertToUint64\<close>
  names.
\<close>

definition column_error :: "string \<Rightarrow> val \<Rightarrow> conv_error \<Rightarrow> error" where
  "column_error col v err =
     (if col = colFsLimit then ErrFsLimitInvalid v err
      else if col = colFsUsage then ErrFsUsageInvalid v err
      else ErrColumnInvalid col v err)"

definition named_type :: "val \<Rightarrow> bool" where
  "named_type v =
     (case v of
        VUint64 _ \<Rightarrow> True | VInt _ \<Rightarrow> True | VInt32 _ \<Rightarrow> True | VInt64 _ \<Rightarrow> True
      | VFloat64 _ \<Rightarrow> True | VUint32 _ \<Rightarrow> True | _ \<Rightarrow> False)"






subsection \<open>Concrete inputs\<close>

text \<open>
  A platform, an empty memory, a storage on host \<open>host-a\<close> whose store refuses every
  write and answers every query with the series \<open>{t=30, t=20}\<close> and \<open>{t=10}\<close>, a second
  storage whose store answers with a row of another host, three samples (with one
  filesystem entry, with none, with two), and two clocks:
  10 seconds after the last write, before the buffer duration of 60 seconds has passed,
  and 100 seconds after it.
\<close>

definition example_platform :: platform where
  "example_platform = \<lparr>float64_to_uint64 = (\<lambda>_. 2 ^ 63), float64_to_int64 = (\<lambda>_. 2 ^ 63)\<rparr>"

definition example_heap :: heap where
  "example_heap =
     \<lparr>str_mem = \<lparr>cells = (\<lambda>_. []), top = 1\<rparr>, val_mem = \<lparr>cells = (\<lambda>_. []), top = 1\<rparr>\<rparr>"

definition time_series :: "real list \<Rightarrow> Series" where
  "time_series ts =
     \<lparr>SeriesName = ''stats'', Columns = [colTimestamp],
      Points = map (\<lambda>t. [VFloat64 (Finite t)]) ts\<rparr>"

definition example_client :: client where
  "example_client =
     \<lparr>writeSeries = (\<lambda>_. Some ''connection refused''),
      queryResult = (\<lambda>_. Inr [time_series [30, 20], time_series [10]]),
      calls = []\<rparr>"

definition example_storage :: influxdbStorage where
  "example_storage =
     \<lparr>client = Some example_client, machineName = ''host-a'', tableName = ''stats'',
      bufferDuration = 60000000000, lastWrite = \<lparr>unixSec = 100, nsec = 0\<rparr>, series = [],
      readyToFlush = DefaultReadyToFlush\<rparr>"




definition example_ref :: ContainerReference where
  "example_ref = \<lparr>Name = ''/docker/abc'', Aliases = [''web'']\<rparr>"

definition example_stats :: ContainerStats where
  "example_stats =
     \<lparr>Timestamp = \<lparr>unixSec = 1400000000, nsec = 123456789\<rparr>,
      Cpu = Some \<lparr>Usage_Total = 7\<rparr>,
      Memory = Some \<lparr>Usage = 8, WorkingSet = 9\<rparr>,
      Network = Some \<lparr>RxBytes = 1, RxErrors = 2, TxBytes = 3, TxErrors = 4\<rparr>,
      Filesystem = [\<lparr>Device = ''sda'', Limit = 100, FsUsage = 10\<rparr>]\<rparr>"

definition example_stats_no_filesystem :: ContainerStats where
  "example_stats_no_filesystem = example_stats\<lparr>Filesystem := []\<rparr>"

definition example_stats_two_devices :: ContainerStats where
  "example_stats_two_devices =
     \<lparr>Timestamp = \<lparr>unixSec = 1400000000, nsec = 0\<rparr>,
      Cpu = Some \<lparr>Usage_Total = 7\<rparr>,
      Memory = Some \<lparr>Usage = 8, WorkingSet = 9\<rparr>,
      Network = None,
      Filesystem = [\<lparr>Device = ''sda'', Limit = 100, FsUsage = 10\<rparr>,
                    \<lparr>Device = ''sdb'', Limit = 200, FsUsage = 20\<rparr>]\<rparr>"

definition env_early :: environment where
  "env_early =
     \<lparr>now_since = \<lparr>unixSec = 110, nsec = 0\<rparr>, now_stamp = \<lparr>unixSec = 110, nsec = 0\<rparr>,
      override_says = False\<rparr>"

definition env_due :: environment where
  "env_due =
     \<lparr>now_since = \<lparr>unixSec = 200, nsec = 0\<rparr>, now_stamp = \<lparr>unixSec = 200, nsec = 5\<rparr>,
      override_says = False\<rparr>"

section \<open>Properties\<close>

lemmas col_defs =
  colTimestamp_def colMachineName_def colContainerName_def colCpuCumulativeUsage_def
  colMemoryUsage_def colMemoryWorkingSet_def colRxBytes_def colRxErrors_def colTxBytes_def
  colTxErrors_def colFsDevice_def colFsLimit_def colFsUsage_def

subsection \<open>\<open>append\<close>\<close>

lemma newcap_gt: "c < newcap c"
  unfolding newcap_def by (cases "c < 1024") auto

text \<open>An append adds its element at the end, in place or in a new array.\<close>

lemma append_go_ok:
  assumes "slice_ok a s" and "append_go z a s v = (a', s')"
  shows "slice_ok a' s' \<and> elems a' s' = elems a s @ [v]"
proof (cases "slen s < scap s")
  case True
  with assms show ?thesis
    by (auto simp: append_go_def slice_ok_def elems_def take_Suc_conv_app_nth)
next
  case False
  with assms have eq: "slen s = scap s" by (simp add: slice_ok_def)
  have "slen s < newcap (scap s)" using eq newcap_gt [of "scap s"] by simp
  with assms False eq show ?thesis
    by (auto simp: append_go_def slice_ok_def elems_def)
qed

text \<open>
  An append to a slice leaves the elements of every slice behind it as they are: an
  append in place writes past their end, and a new array is not theirs.
\<close>

lemma append_go_frame:
  assumes "slice_alloc a t" "behind t s" "append_go z a s v = (a', s')"
  shows "elems a' t = elems a t \<and> slice_alloc a' t \<and> behind t s'"
proof (cases "slen s < scap s")
  case True
  with assms show ?thesis
    by (auto simp: append_go_def slice_alloc_def slice_ok_def elems_def behind_def)
next
  case False
  with assms show ?thesis
    by (auto simp: append_go_def slice_alloc_def slice_ok_def elems_def behind_def)
qed

lemma holds_empty:
  "slen c = 0 \<Longrightarrow> scap c = 0 \<Longrightarrow> slen v = 0 \<Longrightarrow> scap v = 0 \<Longrightarrow> holds h c v [] []"
  by (simp add: holds_def slice_ok_def elems_def)

lemma append_str_holds:
  assumes "holds h c v cs vs"
  shows "\<exists>h' c'. append_str h c x = (h', c') \<and> holds h' c' v (cs @ [x]) vs"
proof -
  obtain a c' where ap: "append_go [] (str_mem h) c x = (a, c')"
    by (cases "append_go [] (str_mem h) c x")
  from assms have "slice_ok (str_mem h) c" by (simp add: holds_def)
  from append_go_ok [OF this ap] assms ap show ?thesis
    by (simp add: append_str_def holds_def)
qed

lemma append_val_holds:
  assumes "holds h c v cs vs"
  shows "\<exists>h' v'. append_val h v x = (h', v') \<and> holds h' c v' cs (vs @ [x])"
proof -
  obtain a v' where ap: "append_go VNil (val_mem h) v x = (a, v')"
    by (cases "append_go VNil (val_mem h) v x")
  from assms have "slice_ok (val_mem h) v" by (simp add: holds_def)
  from append_go_ok [OF this ap] assms ap show ?thesis
    by (simp add: append_val_def holds_def)
qed

text \<open>The two rules by which the proofs below walk through a sequence of appends.\<close>

lemma step_str:
  assumes "holds h c v cs vs"
    and "\<And>h' c'. holds h' c' v (cs @ [x]) vs \<Longrightarrow> P (f h' c')"
  shows "P (case append_str h c x of (h', c') \<Rightarrow> f h' c')"
  using append_str_holds [OF assms(1), of x] assms(2) by auto

lemma step_val:
  assumes "holds h c v cs vs"
    and "\<And>h' v'. holds h' c v' cs (vs @ [x]) \<Longrightarrow> P (f h' v')"
  shows "P (case append_val h v x of (h', v') \<Rightarrow> f h' v')"
  using append_val_holds [OF assms(1), of x] assms(2) by auto

lemma caller_view_str:
  assumes "caller_view h c v c' v' cs vs"
    and "\<And>h' c''. caller_view h' c v c'' v' cs vs \<Longrightarrow> P (f h' c'')"
  shows "P (case append_str h c' x of (h', c'') \<Rightarrow> f h' c'')"
proof -
  obtain a c'' where ap: "append_go [] (str_mem h) c' x = (a, c'')"
    by (cases "append_go [] (str_mem h) c' x")
  from assms(1) have "slice_alloc (str_mem h) c" "behind c c'"
    by (simp_all add: caller_view_def)
  from append_go_frame [OF this ap] assms(1)
  have "caller_view (h\<lparr>str_mem := a\<rparr>) c v c'' v' cs vs"
    by (simp add: caller_view_def)
  from assms(2) [OF this] ap show ?thesis by (simp add: append_str_def)
qed

lemma caller_view_val:
  assumes "caller_view h c v c' v' cs vs"
    and "\<And>h' v''. caller_view h' c v c' v'' cs vs \<Longrightarrow> P (f h' v'')"
  shows "P (case append_val h v' x of (h', v'') \<Rightarrow> f h' v'')"
proof -
  obtain a v'' where ap: "append_go VNil (val_mem h) v' x = (a, v'')"
    by (cases "append_go VNil (val_mem h) v' x")
  from assms(1) have "slice_alloc (val_mem h) v" "behind v v'"
    by (simp_all add: caller_view_def)
  from append_go_frame [OF this ap] assms(1)
  have "caller_view (h\<lparr>val_mem := a\<rparr>) c v c' v'' cs vs"
    by (simp add: caller_view_def)
  from assms(2) [OF this] ap show ?thesis by (simp add: append_val_def)
qed

subsection \<open>The write path\<close>

text \<open>
  Inside \<open>getSeriesDefaultValues\<close> the three default columns and their values are
  appended to the function's own slices.
\<close>

lemma getSeriesDefaultValues_locals_holds:
  assumes "holds h columns values cs vs"
  shows "case getSeriesDefaultValues_locals self ref stats columns values h of
           (h', columns', values') \<Rightarrow>
             holds h' columns' values'
               (cs @ [colTimestamp, colMachineName, colContainerName])
               (vs @ [VInt64 (int64_div (UnixNano (Timestamp stats)) 1000),
                      VString (machineName self),
                      VString (if 0 < length (Aliases ref) then Aliases ref ! 0 else Name ref)])"
  unfolding getSeriesDefaultValues_locals_def Let_def
  apply (rule step_str [OF assms])
  apply (rule step_val, assumption)
  apply (rule step_str, assumption)
  apply (rule step_val, assumption)
  apply (rule step_str, assumption)
  apply (cases "0 < length (Aliases ref)")
   apply simp
   apply (rule step_val, assumption)
   apply simp
  apply simp
  apply (rule step_val, assumption)
  apply simp
  done

text \<open>
  For the caller the call changes nothing: whatever the capacity of the two slices it
  passes, they hold after the call what they held before.
\<close>

lemma getSeriesDefaultValues_by_value:
  assumes "slice_alloc (str_mem h) columns" "slice_alloc (val_mem h) values"
  shows "elems (str_mem (getSeriesDefaultValues self ref stats columns values h)) columns =
           elems (str_mem h) columns \<and>
         elems (val_mem (getSeriesDefaultValues self ref stats columns values h)) values =
           elems (val_mem h) values"
proof -
  have 0: "caller_view h columns values columns values
             (elems (str_mem h) columns) (elems (val_mem h) values)"
    using assms by (simp add: caller_view_def behind_def)
  show ?thesis
    unfolding getSeriesDefaultValues_def getSeriesDefaultValues_locals_def Let_def
    apply (rule caller_view_str [OF 0])
    apply (rule caller_view_val, assumption)
    apply (rule caller_view_str, assumption)
    apply (rule caller_view_val, assumption)
    apply (rule caller_view_str, assumption)
    apply (cases "0 < length (Aliases ref)")
     apply simp
     apply (rule caller_view_val, assumption)
     apply (simp add: caller_view_def)
    apply simp
    apply (rule caller_view_val, assumption)
    apply (simp add: caller_view_def)
    done
qed

text \<open>The columns and values of the core row.\<close>

lemma containerStatsToValues_holds:
  assumes "Cpu stats = Some cpu" "Memory stats = Some mem"
  shows "case containerStatsToValues self ref stats h of
           Inl e \<Rightarrow> False
         | Inr (h', c, v) \<Rightarrow> holds h' c v (core_columns stats) (core_values stats)"
proof -
  have 0: "holds (getSeriesDefaultValues self ref stats nil_slice nil_slice h)
             nil_slice nil_slice [] []"
    by (rule holds_empty) (simp_all add: nil_slice_def)
  show ?thesis
  proof (cases "Network stats")
    case None
    show ?thesis
      unfolding containerStatsToValues_def Let_def
      apply (rule step_str [OF 0])
      apply (simp add: assms None)
      apply (rule step_val, assumption)
      apply (rule step_str, assumption)
      apply simp
      apply (rule step_val, assumption)
      apply (rule step_str, assumption)
      apply (rule step_val, assumption)
      apply (simp add: core_columns_def core_values_def assms None)
      done
  next
    case (Some net)
    show ?thesis
      unfolding containerStatsToValues_def Let_def
      apply (rule step_str [OF 0])
      apply (simp add: assms Some)
      apply (rule step_val, assumption)
      apply (rule step_str, assumption)
      apply simp
      apply (rule step_val, assumption)
      apply (rule step_str, assumption)
      apply (rule step_val, assumption)
      apply simp
      apply (rule step_str, assumption)
      apply (rule step_val, assumption)
      apply (rule step_str, assumption)
      apply (rule step_val, assumption)
      apply (rule step_str, assumption)
      apply (rule step_val, assumption)
      apply (rule step_str, assumption)
      apply (rule step_val, assumption)
      apply (simp add: core_columns_def core_values_def assms Some)
      done
  qed
qed

lemma newSeries_holds:
  "holds h c v cs vs \<Longrightarrow>
   newSeries self h c v = \<lparr>SeriesName = tableName self, Columns = cs, Points = [vs]\<rparr>"
  by (simp add: holds_def newSeries_def)

text \<open>One row for each filesystem entry, in the order of the entries.\<close>

lemma fs_loop_rows:
  "snd (fs_loop self ref stats fss out h) = out @ map (fs_series self) fss"
proof (induction fss arbitrary: out h)
  case Nil
  show ?case by simp
next
  case (Cons fsStat rest)
  have 0: "holds (getSeriesDefaultValues self ref stats make_empty make_empty h)
             make_empty make_empty [] []"
    by (rule holds_empty) (simp_all add: make_empty_def)
  show ?case
    unfolding fs_loop.simps Let_def
    apply (rule step_str [OF 0])
    apply (rule step_val, assumption)
    apply (rule step_str, assumption)
    apply (rule step_val, assumption)
    apply (rule step_str, assumption)
    apply (rule step_val, assumption)
    apply (simp add: Cons.IH newSeries_holds fs_series_def)
    done
qed

lemma containerFilesystemStatsToSeries_rows:
  "snd (containerFilesystemStatsToSeries self ref stats h) =
     map (fs_series self) (Filesystem stats)"
  by (simp add: containerFilesystemStatsToSeries_def fs_loop_rows)

lemma rows_of_length: "length (rows_of self stats) = 1 + length (Filesystem stats)"
  by (simp add: rows_of_def)

lemma rows_of_nonempty: "rows_of self stats \<noteq> []"
  by (simp add: rows_of_def)

text \<open>
  Every row has as many values as columns, and at least three; no row has a default
  column.
\<close>

lemma rows_of_lengths:
  assumes "s \<in> set (rows_of self stats)"
  shows "3 \<le> length (Columns s) \<and> (\<exists>p. Points s = [p] \<and> length p = length (Columns s))"
  using assms
  by (auto simp: rows_of_def core_series_def fs_series_def core_columns_def core_values_def
      split: option.splits)

lemma rows_of_no_default_columns:
  assumes "s \<in> set (rows_of self stats)"
  shows "colTimestamp \<notin> set (Columns s) \<and> colMachineName \<notin> set (Columns s) \<and>
         colContainerName \<notin> set (Columns s)"
  using assms
  by (auto simp: rows_of_def core_series_def fs_series_def core_columns_def col_defs
      split: option.splits)

subsection \<open>The write buffer\<close>

lemma call_readyToFlush_series:
  "call_readyToFlush env (self\<lparr>series := ss\<rparr>) = call_readyToFlush env self"
  by (simp add: call_readyToFlush_def defaultReadyToFlush_def split: ready_fn.splits)

text \<open>
  What the closure does with a sample that has \<open>Cpu\<close> and \<open>Memory\<close>: it appends the
  rows of the sample, and hands the whole batch over when the flush is due.
\<close>

lemma AddStats_locked_eq:
  assumes "Cpu stats = Some cpu" "Memory stats = Some mem"
  shows "\<exists>h'. AddStats_locked env self ref stats h =
           Inr (if call_readyToFlush env self
                then (self\<lparr>series := [], lastWrite := now_stamp env\<rparr>, h',
                      series self @ rows_of self stats)
                else (self\<lparr>series := series self @ rows_of self stats\<rparr>, h', []))"
proof -
  from containerStatsToValues_holds [OF assms, of self ref h]
  obtain h1 c v where 1: "containerStatsToValues self ref stats h = Inr (h1, c, v)"
    and 2: "holds h1 c v (core_columns stats) (core_values stats)"
    by (auto split: sum.splits)
  let ?self1 = "self\<lparr>series := series self @ [core_series self stats]\<rparr>"
  obtain h2 fs where 3: "containerFilesystemStatsToSeries ?self1 ref stats h1 = (h2, fs)"
    by (cases "containerFilesystemStatsToSeries ?self1 ref stats h1")
  from containerFilesystemStatsToSeries_rows [of ?self1 ref stats h1] 3
  have 4: "fs = map (fs_series self) (Filesystem stats)"
    by (simp add: fs_series_def)
  show ?thesis
    by (simp add: AddStats_locked_def 1 3 [unfolded core_series_def] 4 newSeries_holds [OF 2]
        rows_of_def core_series_def call_readyToFlush_series)
qed

lemma AddStats_not_ready:
  assumes "Cpu stats = Some cpu" "Memory stats = Some mem" "\<not> call_readyToFlush env self"
  shows "\<exists>h'. AddStats env self ref (Some stats) h =
           (None, self\<lparr>series := series self @ rows_of self stats\<rparr>, h')"
proof -
  from AddStats_locked_eq [OF assms(1,2), of env self ref h] assms(3)
  obtain h' where "AddStats_locked env self ref stats h =
      Inr (self\<lparr>series := series self @ rows_of self stats\<rparr>, h', [])"
    by auto
  then show ?thesis by (simp add: AddStats_def assms(1,2))
qed

lemma early_not_ready: "\<not> call_readyToFlush env_early example_storage"
  by (simp add: call_readyToFlush_def defaultReadyToFlush_def env_early_def
      example_storage_def time_Sub_def)

lemma due_ready: "call_readyToFlush env_due example_storage"
  by (simp add: call_readyToFlush_def defaultReadyToFlush_def env_due_def
      example_storage_def time_Sub_def)

lemma example_stats_valid:
  "Cpu example_stats = Some \<lparr>Usage_Total = 7\<rparr>"
  "Memory example_stats = Some \<lparr>Usage = 8, WorkingSet = 9\<rparr>"
  by (simp_all add: example_stats_def)

lemma example_stats_no_filesystem_valid:
  "Cpu example_stats_no_filesystem = Some \<lparr>Usage_Total = 7\<rparr>"
  "Memory example_stats_no_filesystem = Some \<lparr>Usage = 8, WorkingSet = 9\<rparr>"
  by (simp_all add: example_stats_no_filesystem_def example_stats_def)

lemma example_stats_two_devices_valid:
  "Cpu example_stats_two_devices = Some \<lparr>Usage_Total = 7\<rparr>"
  "Memory example_stats_two_devices = Some \<lparr>Usage = 8, WorkingSet = 9\<rparr>"
  by (simp_all add: example_stats_two_devices_def)

subsection \<open>The read path\<close>

lemma set_field_ok:
  "set_field pf col v p f = Inr st' \<Longrightarrow> (\<And>q x. p = Some q \<Longrightarrow> P (f q x)) \<Longrightarrow> P st'"
  by (auto simp: set_field_def split: option.splits sum.splits)

lemma set_Filesystem_ok: "ptrs_ok stats \<Longrightarrow> ptrs_ok (set_Filesystem stats fresh f)"
  by (auto simp: ptrs_ok_def set_Filesystem_def)

lemma ptrs_ok_updates:
  assumes "ptrs_ok stats"
  shows "ptrs_ok (stats\<lparr>Timestamp := t\<rparr>)" "ptrs_ok (stats\<lparr>Cpu := Some c\<rparr>)"
    "ptrs_ok (stats\<lparr>Memory := Some m\<rparr>)" "ptrs_ok (stats\<lparr>Network := Some n\<rparr>)"
  using assms by (simp_all add: ptrs_ok_def)

text \<open>
  The three pointers stay non-nil and the filesystem list stays within one entry, in
  one iteration and so in the loop.
\<close>

lemma body_ptrs_ok:
  assumes "ptrs_ok stats" and "valuesToContainerStats_body pf self stats col v = Inr stats'"
  shows "ptrs_ok stats'"
  using assms unfolding valuesToContainerStats_body_def
  by (auto split: if_splits val.splits sum.splits
      elim!: set_field_ok simp: ptrs_ok_updates set_Filesystem_ok)

lemma loop_ptrs_ok:
  "ptrs_ok stats \<Longrightarrow> valuesToContainerStats_loop pf self cols vs stats = Inr stats'
     \<Longrightarrow> ptrs_ok stats'"
proof (induction pf self cols vs stats rule: valuesToContainerStats_loop.induct)
  case (3 pf self col cols v vs stats)
  then show ?case
    by (auto split: sum.splits dest: body_ptrs_ok)
qed simp_all

lemma emptyStats_ok: "ptrs_ok emptyStats"
  by (simp add: ptrs_ok_def emptyStats_def)

lemma body_Network:
  assumes "col \<notin> set network_columns"
    and "valuesToContainerStats_body pf self stats col v = Inr stats'"
  shows "Network stats' = Network stats"
  using assms unfolding valuesToContainerStats_body_def network_columns_def
  by (auto split: if_splits val.splits sum.splits option.splits
      simp: set_field_def set_Filesystem_def)

lemma loop_Network:
  "set cols \<inter> set network_columns = {} \<Longrightarrow>
   valuesToContainerStats_loop pf self cols vs stats = Inr stats' \<Longrightarrow>
   Network stats' = Network stats"
proof (induction pf self cols vs stats rule: valuesToContainerStats_loop.induct)
  case (3 pf self col cols v vs stats)
  then show ?case
    by (auto split: sum.splits dest: body_Network)
qed simp_all

text \<open>The loop over a list of columns is the loop over its first part, then over the rest.\<close>

lemma loop_append:
  "length cs1 = length vs1 \<Longrightarrow>
   valuesToContainerStats_loop pf self (cs1 @ cs2) (vs1 @ vs2) stats =
     (case valuesToContainerStats_loop pf self cs1 vs1 stats of
        Inl e \<Rightarrow> Inl e
      | Inr stats' \<Rightarrow> valuesToContainerStats_loop pf self cs2 vs2 stats')"
proof (induction cs1 arbitrary: vs1 stats)
  case Nil
  then show ?case by simp
next
  case (Cons c cs1)
  then obtain v vs1' where "vs1 = v # vs1'" by (cases vs1) auto
  with Cons show ?case by (simp split: sum.splits)
qed

lemma loop_at:
  assumes "i < length cols" "i < length vs"
  shows "valuesToContainerStats_loop pf self cols vs stats =
     (case valuesToContainerStats_loop pf self (take i cols) (take i vs) stats of
        Inl e \<Rightarrow> Inl e
      | Inr stats' \<Rightarrow>
          (case valuesToContainerStats_body pf self stats' (cols ! i) (vs ! i) of
             Inl e \<Rightarrow> Inl e
           | Inr stats'' \<Rightarrow>
               valuesToContainerStats_loop pf self (drop (Suc i) cols) (drop (Suc i) vs) stats''))"
proof -
  have c: "cols = take i cols @ (cols ! i # drop (Suc i) cols)"
    using assms(1) by (simp add: id_take_nth_drop [symmetric])
  have v: "vs = take i vs @ (vs ! i # drop (Suc i) vs)"
    using assms(2) by (simp add: id_take_nth_drop [symmetric])
  have l: "length (take i cols) = length (take i vs)" using assms by simp
  show ?thesis
    by (subst c, subst v, subst loop_append [OF l]) (simp split: sum.splits)
qed

lemma body_machine:
  "m \<noteq> machineName self \<Longrightarrow>
   valuesToContainerStats_body pf self stats colMachineName (VString m) = Inl ErrDifferentMachine"
  by (simp add: valuesToContainerStats_body_def col_defs)

lemma body_conv_error:
  assumes "col \<in> set numeric_columns" "convertToUint64 pf v = Inl err" "ptrs_ok stats"
  shows "valuesToContainerStats_body pf self stats col v = Inl (column_error col v err)"
proof -
  obtain c m n where p: "Cpu stats = Some c" "Memory stats = Some m" "Network stats = Some n"
    using assms(3) by (auto simp: ptrs_ok_def)
  from assms(1) consider "col = colCpuCumulativeUsage" | "col = colMemoryUsage"
    | "col = colMemoryWorkingSet" | "col = colRxBytes" | "col = colRxErrors" | "col = colTxBytes"
    | "col = colTxErrors" | "col = colFsLimit" | "col = colFsUsage"
    by (auto simp: numeric_columns_def)
  then show ?thesis
    by cases
      (simp_all add: valuesToContainerStats_body_def column_error_def set_field_def p assms(2)
         col_defs)
qed




subsection \<open>\<open>convertToUint64\<close>\<close>

lemma convert_cases:
  "convertToUint64 pf VNil = Inr 0"
  "convertToUint64 pf (VUint64 x) = Inr x"
  "convertToUint64 pf (VUint32 y) = Inr (ucast y)"
  "convertToUint64 pf (VInt x) = (if sint x < 0 then Inl (NegativeValue (VInt x)) else Inr x)"
  "convertToUint64 pf (VInt32 y) =
     (if sint y < 0 then Inl (NegativeValue (VInt32 y)) else Inr (scast y))"
  "convertToUint64 pf (VInt64 x) = (if sint x < 0 then Inl (NegativeValue (VInt64 x)) else Inr x)"
  "convertToUint64 pf (VFloat64 f) =
     (if float64_lt_zero f then Inl (NegativeValue (VFloat64 f))
      else Inr (uint64_of_float64 pf f))"
  by (simp_all add: convertToUint64_def)

lemma sint_nonneg_uint:
  fixes x :: "64 word"
  assumes "0 \<le> sint x"
  shows "uint x = sint x"
proof -
  have "sint x < 2 ^ 64" using sint_lt [of x] by simp
  then have "take_bit 64 (sint x) = sint x"
    using assms by (simp add: take_bit_int_eq_self)
  then show ?thesis using uint_sint [of x] by simp
qed

lemma scast_nonneg_uint:
  fixes y :: "32 word"
  assumes "0 \<le> sint y"
  shows "uint (scast y :: 64 word) = sint y"
proof -
  have "sint y < 2 ^ 31" using sint_lt [of y] by simp
  then have "sint y < 2 ^ 64" by simp
  then have "take_bit 64 (sint y) = sint y"
    using assms by (simp add: take_bit_int_eq_self)
  moreover have "uint (scast y :: 64 word) = take_bit 64 (sint y)"
    by (subst scast_eq, subst uint_word_of_int_eq) simp
  ultimately show ?thesis by simp
qed

lemma ucast_uint: "uint (ucast (y :: 32 word) :: 64 word) = uint y"
  by (simp add: uint_up_ucast is_up)

lemma float_in_range:
  assumes "0 \<le> r" "r < 2 ^ 64"
  shows "uint (uint64_of_float64 pf (Finite r)) = \<lfloor>r\<rfloor>"
proof -
  have a: "0 \<le> \<lfloor>r\<rfloor>" using assms(1) by simp
  have b: "\<lfloor>r\<rfloor> < 2 ^ 64" using assms(2) by (simp add: floor_less_iff)
  show ?thesis using a b assms(1)
    by (simp add: uint64_of_float64_def trunc_real_def uint_word_of_int)
qed

subsection \<open>The loops of \<open>RecentStats\<close>\<close>










subsection \<open>The round trip\<close>

lemma roundtrip_core:
  assumes "Cpu stats = Some cpu" "Memory stats = Some mem"
  shows "roundtrip pf self ref stats h =
           valuesToContainerStats pf self (core_columns stats) (core_values stats)"
  using containerStatsToValues_holds [OF assms, of self ref h]
  by (auto simp: roundtrip_def holds_def split: sum.splits)

lemma reconstruct_core:
  assumes "Cpu stats = Some cpu" "Memory stats = Some mem"
  shows "valuesToContainerStats pf self (core_columns stats) (core_values stats) =
     Inr \<lparr>Timestamp = zeroTime,
          Cpu = Some \<lparr>Usage_Total = Usage_Total cpu\<rparr>,
          Memory = Some \<lparr>Usage = Usage mem, WorkingSet = WorkingSet mem\<rparr>,
          Network = Some (case Network stats of None \<Rightarrow> zeroNetwork | Some net \<Rightarrow> net),
          Filesystem = []\<rparr>"
  using assms
  by (cases "Network stats")
     (simp_all add: valuesToContainerStats_def core_columns_def core_values_def emptyStats_def
        valuesToContainerStats_body_def set_field_def convertToUint64_def col_defs zeroNetwork_def)

section \<open>The claims\<close>

text \<open>
  Claim C1: every row emitted by the write path, the core row of
  \<open>containerStatsToValues\<close> and each filesystem row of
  \<open>containerFilesystemStatsToSeries\<close>, has columns and values of equal, non-zero length
  that contain the three default columns (timestamp, host, container).

  The rows have columns and values of equal, non-zero length, but the default columns
  are in none of them: \<open>getSeriesDefaultValues\<close> appends them to its own copies of the
  slice headers and returns nothing (\<open>getSeriesDefaultValues_locals_holds\<close>,
  \<open>getSeriesDefaultValues_by_value\<close>). The theorem runs \<open>AddStats\<close> on a sample with
  network statistics and one filesystem entry, before the flush is due, and reads the
  columns of the rows in the pending batch.
\<close>

theorem default_columns_missing:
  "map Columns (series (fst (snd
      (AddStats env_early example_storage example_ref (Some example_stats) example_heap)))) =
     [[''cpu_cumulative_usage'', ''memory_usage'', ''memory_working_set'',
       ''rx_bytes'', ''rx_errors'', ''tx_bytes'', ''tx_errors''],
      [''fs_device'', ''fs_limit'', ''fs_usage'']]"
proof -
  from AddStats_not_ready [OF example_stats_valid early_not_ready, of example_ref example_heap]
  obtain h' where
    "AddStats env_early example_storage example_ref (Some example_stats) example_heap =
      (None,
       example_storage\<lparr>series := series example_storage @ rows_of example_storage example_stats\<rparr>,
       h')"
    by auto
  then show ?thesis
    by (simp add: rows_of_def core_series_def fs_series_def core_columns_def example_stats_def
        example_storage_def col_defs)
qed

text \<open>
  Claim C2, as amended: for every sample with \<open>Cpu\<close> and \<open>Memory\<close>, the columns and
  values of \<open>containerStatsToValues\<close>, given to \<open>valuesToContainerStats\<close> of the same
  storage, are reconstructed without error, and the result has the CPU cumulative usage,
  the memory usage and the memory working set of the sample and, when the sample has
  network statistics, its four network values; when it has none, the network record of
  the result is zero. Nothing is said of the timestamp.
\<close>

theorem roundtrip_reproduces_values:
  assumes "Cpu stats = Some cpu" "Memory stats = Some mem"
  shows "\<exists>r. roundtrip pf self ref stats h = Inr r \<and>
           map_option Usage_Total (Cpu r) = Some (Usage_Total cpu) \<and>
           map_option Usage (Memory r) = Some (Usage mem) \<and>
           map_option WorkingSet (Memory r) = Some (WorkingSet mem) \<and>
           Network r = Some (case Network stats of None \<Rightarrow> zeroNetwork | Some net \<Rightarrow> net)"
  by (simp add: roundtrip_core [OF assms] reconstruct_core [OF assms])

theorem roundtrip_reproduces_values_witness:
  "Cpu example_stats = Some \<lparr>Usage_Total = 7\<rparr> \<and>
   Memory example_stats = Some \<lparr>Usage = 8, WorkingSet = 9\<rparr> \<and>
   (\<exists>r. roundtrip example_platform example_storage example_ref example_stats example_heap = Inr r \<and>
        map_option Usage_Total (Cpu r) = Some 7 \<and>
        map_option Usage (Memory r) = Some 8 \<and>
        map_option WorkingSet (Memory r) = Some 9 \<and>
        Network r = Some \<lparr>RxBytes = 1, RxErrors = 2, TxBytes = 3, TxErrors = 4\<rparr>)"
proof -
  from roundtrip_reproduces_values
    [OF example_stats_valid, of example_platform example_storage example_ref example_heap]
    example_stats_valid
  show ?thesis by (simp add: example_stats_def)
qed

text \<open>
  The claim as stated fails on the timestamp. The sample below has no filesystem entry
  and was taken at 1400000000.123456789 seconds; the round trip gives the zero time, not
  1400000000.123456 seconds. The last part gives \<open>valuesToContainerStats\<close> the row with
  the three default columns in front, as \<open>getSeriesDefaultValues\<close> builds them in its
  own slices: the time is still the zero time, since the time value of the write path
  is an \<open>int64\<close> and the read path takes the time from a \<open>float64\<close> only.
\<close>

theorem roundtrip_loses_timestamp:
  "Filesystem example_stats_no_filesystem = [] \<and>
   map_sum id Timestamp
     (roundtrip example_platform example_storage example_ref example_stats_no_filesystem
        example_heap) =
     Inr zeroTime \<and>
   truncate_us (Timestamp example_stats_no_filesystem) =
     \<lparr>unixSec = 1400000000, nsec = 123456000\<rparr> \<and>
   zeroTime \<noteq> truncate_us (Timestamp example_stats_no_filesystem) \<and>
   map_sum id Timestamp
     (valuesToContainerStats example_platform example_storage
        ([colTimestamp, colMachineName, colContainerName] @
           core_columns example_stats_no_filesystem)
        ([VInt64 (int64_div (UnixNano (Timestamp example_stats_no_filesystem)) 1000),
          VString ''host-a'', VString ''web''] @
           core_values example_stats_no_filesystem)) =
     Inr zeroTime"
proof -
  have a: "map_sum id Timestamp
      (roundtrip example_platform example_storage example_ref example_stats_no_filesystem
         example_heap) = Inr zeroTime"
    by (simp add: roundtrip_core [OF example_stats_no_filesystem_valid]
        reconstruct_core [OF example_stats_no_filesystem_valid])
  have b: "map_sum id Timestamp
     (valuesToContainerStats example_platform example_storage
        ([colTimestamp, colMachineName, colContainerName] @
           core_columns example_stats_no_filesystem)
        ([VInt64 (int64_div (UnixNano (Timestamp example_stats_no_filesystem)) 1000),
          VString ''host-a'', VString ''web''] @
           core_values example_stats_no_filesystem)) =
     Inr zeroTime"
    by (simp add: valuesToContainerStats_def valuesToContainerStats_body_def emptyStats_def
        set_field_def convertToUint64_def core_columns_def core_values_def
        example_stats_no_filesystem_def example_stats_def example_storage_def col_defs)
  show ?thesis
    using a b
    by (simp add: truncate_us_def example_stats_no_filesystem_def example_stats_def zeroTime_def)
qed

text \<open>
  Claim C3: a sample with \<open>k \<ge> 1\<close> filesystem entries gives \<open>1 + k\<close> rows, the core row
  first, then one row for each entry in the order of the entries, each with the default
  columns and the device, limit and usage columns of its entry and no other.

  The number and the order of the rows are as claimed (\<open>AddStats_not_ready\<close>,
  \<open>rows_of_length\<close>), and a filesystem row has the three columns of its entry, but not the
  default columns, for the reason given under C1. The theorem runs \<open>AddStats\<close> on a
  sample with two filesystem entries and shows the pending batch.
\<close>

theorem filesystem_rows_without_default_columns:
  "series (fst (snd
      (AddStats env_early example_storage example_ref (Some example_stats_two_devices)
         example_heap))) =
     [\<lparr>SeriesName = ''stats'',
       Columns = [''cpu_cumulative_usage'', ''memory_usage'', ''memory_working_set''],
       Points = [[VUint64 7, VUint64 8, VUint64 9]]\<rparr>,
      \<lparr>SeriesName = ''stats'',
       Columns = [''fs_device'', ''fs_limit'', ''fs_usage''],
       Points = [[VString ''sda'', VUint64 100, VUint64 10]]\<rparr>,
      \<lparr>SeriesName = ''stats'',
       Columns = [''fs_device'', ''fs_limit'', ''fs_usage''],
       Points = [[VString ''sdb'', VUint64 200, VUint64 20]]\<rparr>]"
proof -
  from AddStats_not_ready
    [OF example_stats_two_devices_valid early_not_ready, of example_ref example_heap]
  obtain h' where
    "AddStats env_early example_storage example_ref (Some example_stats_two_devices) example_heap =
      (None,
       example_storage\<lparr>series := series example_storage @
                          rows_of example_storage example_stats_two_devices\<rparr>,
       h')"
    by auto
  then show ?thesis
    by (simp add: rows_of_def core_series_def fs_series_def core_columns_def core_values_def
        example_stats_two_devices_def example_storage_def col_defs)
qed



text \<open>
  Claim C5, as amended: when a host column has a string other than the expected host,
  \<open>valuesToContainerStats\<close> fails and returns no sample. The error is the "different
  machine" error when the columns before the host column were read without error;
  otherwise it is the error of the first of them that failed.

  In the theorem the host column is column \<open>i\<close>, and the columns before it are
  \<open>take i columns\<close>.
\<close>

theorem host_mismatch_fails:
  assumes "i < length columns" "i < length values"
    and "columns ! i = colMachineName" "values ! i = VString m" "m \<noteq> machineName self"
  shows "(\<exists>e. valuesToContainerStats pf self columns values = Inl e) \<and>
         (\<forall>stats. valuesToContainerStats pf self (take i columns) (take i values) = Inr stats \<longrightarrow>
            valuesToContainerStats pf self columns values = Inl ErrDifferentMachine) \<and>
         (\<forall>e. valuesToContainerStats pf self (take i columns) (take i values) = Inl e \<longrightarrow>
            valuesToContainerStats pf self columns values = Inl e)"
proof -
  have "valuesToContainerStats_loop pf self columns values emptyStats =
     (case valuesToContainerStats_loop pf self (take i columns) (take i values) emptyStats of
        Inl e \<Rightarrow> Inl e
      | Inr stats \<Rightarrow> Inl ErrDifferentMachine)"
    by (subst loop_at [OF assms(1,2)])
       (simp add: assms(3,4) body_machine [OF assms(5)] split: sum.splits)
  then show ?thesis
    unfolding valuesToContainerStats_def by (simp split: sum.splits)
qed

theorem host_mismatch_fails_witness:
  "valuesToContainerStats example_platform example_storage
     [colCpuCumulativeUsage, colMachineName, colMemoryUsage]
     [VUint64 5, VString ''host-b'', VString ''junk''] = Inl ErrDifferentMachine \<and>
   valuesToContainerStats example_platform example_storage
     [colMemoryUsage, colMachineName] [VString ''junk'', VString ''host-b''] =
     Inl (ErrColumnInvalid ''memory_usage'' (VString ''junk'') UnknownType)"
proof -
  let ?cols = "[colCpuCumulativeUsage, colMachineName, colMemoryUsage]"
  let ?vals = "[VUint64 5, VString ''host-b'', VString ''junk'']"
  let ?cols' = "[colMemoryUsage, colMachineName]"
  let ?vals' = "[VString ''junk'', VString ''host-b'']"
  have 1: "1 < length ?cols" "1 < length ?vals" by simp_all
  have 2: "?cols ! 1 = colMachineName" "?vals ! 1 = VString ''host-b''" by simp_all
  have 3: "''host-b'' \<noteq> machineName example_storage" by (simp add: example_storage_def)
  have 4: "valuesToContainerStats example_platform example_storage (take 1 ?cols) (take 1 ?vals) =
      Inr (emptyStats\<lparr>Cpu := Some \<lparr>Usage_Total = 5\<rparr>\<rparr>)"
    by (simp add: valuesToContainerStats_def valuesToContainerStats_body_def emptyStats_def
        set_field_def convertToUint64_def col_defs)
  have 5: "1 < length ?cols'" "1 < length ?vals'" by simp_all
  have 6: "?cols' ! 1 = colMachineName" "?vals' ! 1 = VString ''host-b''" by simp_all
  have 7: "valuesToContainerStats example_platform example_storage (take 1 ?cols') (take 1 ?vals') =
      Inl (ErrColumnInvalid ''memory_usage'' (VString ''junk'') UnknownType)"
    by (simp add: valuesToContainerStats_def valuesToContainerStats_body_def emptyStats_def
        set_field_def convertToUint64_def col_defs)
  from host_mismatch_fails [OF 1 2 3, of example_platform] 4
  have a: "valuesToContainerStats example_platform example_storage ?cols ?vals =
      Inl ErrDifferentMachine" by blast
  from host_mismatch_fails [OF 5 6 3, of example_platform] 7
  have b: "valuesToContainerStats example_platform example_storage ?cols' ?vals' =
      Inl (ErrColumnInvalid ''memory_usage'' (VString ''junk'') UnknownType)" by blast
  from a b show ?thesis by simp
qed

text \<open>
  The claim as stated fails when a column before the host column cannot be read: the
  error is that column's, not "different machine".
\<close>

theorem host_mismatch_after_bad_column:
  "valuesToContainerStats example_platform example_storage
     [colCpuCumulativeUsage, colMachineName] [VInt64 (- 1), VString ''host-b''] =
   Inl (ErrColumnInvalid ''cpu_cumulative_usage'' (VInt64 (- 1)) (NegativeValue (VInt64 (- 1))))"
  by (simp add: valuesToContainerStats_def valuesToContainerStats_body_def emptyStats_def
      set_field_def convertToUint64_def col_defs)

text \<open>
  Claim C6, as amended: \<open>convertToUint64\<close> returns 0 for \<open>nil\<close>; it accepts a \<open>uint64\<close>
  and a \<open>uint32\<close> with their value; it accepts an \<open>int\<close>, an \<open>int32\<close> and an \<open>int64\<close>
  with their value unless they are less than zero, and a \<open>float64\<close> unless it is less
  than zero (with its integer part when that is within \<open>uint64\<close>), and fails with a
  negative-value error for those less than zero; it fails with the unknown-type error
  for a value of any other type, the other integer widths and \<open>float32\<close> among them.
  When the conversion of the value of one of the nine numeric columns fails,
  \<open>valuesToContainerStats\<close> fails, and when the columns before it were read without
  error, the error carries the column (or, for \<open>fs_limit\<close> and \<open>fs_usage\<close>, names the
  field), the raw value and the conversion error.
\<close>

theorem convertToUint64_accepts:
  "convertToUint64 pf VNil = Inr 0 \<and>
   convertToUint64 pf (VUint64 x) = Inr x \<and>
   (\<exists>w. convertToUint64 pf (VUint32 y) = Inr w \<and> uint w = uint y) \<and>
   (if sint x < 0 then convertToUint64 pf (VInt x) = Inl (NegativeValue (VInt x))
    else \<exists>w. convertToUint64 pf (VInt x) = Inr w \<and> uint w = sint x) \<and>
   (if sint y < 0 then convertToUint64 pf (VInt32 y) = Inl (NegativeValue (VInt32 y))
    else \<exists>w. convertToUint64 pf (VInt32 y) = Inr w \<and> uint w = sint y) \<and>
   (if sint x < 0 then convertToUint64 pf (VInt64 x) = Inl (NegativeValue (VInt64 x))
    else \<exists>w. convertToUint64 pf (VInt64 x) = Inr w \<and> uint w = sint x) \<and>
   (if float64_lt_zero f then convertToUint64 pf (VFloat64 f) = Inl (NegativeValue (VFloat64 f))
    else \<exists>w. convertToUint64 pf (VFloat64 f) = Inr w) \<and>
   (0 \<le> r \<and> r < 2 ^ 64 \<longrightarrow>
      (\<exists>w. convertToUint64 pf (VFloat64 (Finite r)) = Inr w \<and> uint w = \<lfloor>r\<rfloor>)) \<and>
   (v \<noteq> VNil \<and> \<not> named_type v \<longrightarrow> convertToUint64 pf v = Inl UnknownType) \<and>
   (i < length columns \<and> i < length values \<and> columns ! i \<in> set numeric_columns \<and>
    convertToUint64 pf (values ! i) = Inl err \<longrightarrow>
      (\<exists>e. valuesToContainerStats pf self columns values = Inl e) \<and>
      (\<forall>stats. valuesToContainerStats pf self (take i columns) (take i values) = Inr stats \<longrightarrow>
         valuesToContainerStats pf self columns values =
           Inl (column_error (columns ! i) (values ! i) err)))"
proof -
  have other: "v \<noteq> VNil \<and> \<not> named_type v \<longrightarrow> convertToUint64 pf v = Inl UnknownType"
    by (cases v) (simp_all add: named_type_def convertToUint64_def)
  have abort: "(\<exists>e. valuesToContainerStats pf self columns values = Inl e) \<and>
      (\<forall>stats. valuesToContainerStats pf self (take i columns) (take i values) = Inr stats \<longrightarrow>
         valuesToContainerStats pf self columns values =
           Inl (column_error (columns ! i) (values ! i) err))"
    if h: "i < length columns" "i < length values" "columns ! i \<in> set numeric_columns"
      "convertToUint64 pf (values ! i) = Inl err"
  proof -
    have "valuesToContainerStats_loop pf self columns values emptyStats =
       (case valuesToContainerStats_loop pf self (take i columns) (take i values) emptyStats of
          Inl e \<Rightarrow> Inl e
        | Inr stats \<Rightarrow> Inl (column_error (columns ! i) (values ! i) err))"
      by (subst loop_at [OF h(1,2)])
         (auto split: sum.splits
            simp: body_conv_error [OF h(3,4)] loop_ptrs_ok [OF emptyStats_ok])
    then show ?thesis
      unfolding valuesToContainerStats_def by (simp split: sum.splits)
  qed
  show ?thesis
    using other abort
    by (simp add: convert_cases sint_nonneg_uint scast_nonneg_uint ucast_uint float_in_range
        float64_lt_zero_def)
qed

theorem convertToUint64_accepts_witness:
  "(\<exists>w. convertToUint64 example_platform (VFloat64 (Finite (3 / 2))) = Inr w \<and> uint w = 1) \<and>
   convertToUint64 example_platform (VString ''junk'') = Inl UnknownType \<and>
   valuesToContainerStats example_platform example_storage
     [colMemoryUsage, colRxBytes] [VUint64 5, VString ''junk''] =
   Inl (ErrColumnInvalid ''rx_bytes'' (VString ''junk'') UnknownType)"
proof -
  let ?cols = "[colMemoryUsage, colRxBytes]"
  let ?vals = "[VUint64 5, VString ''junk'']"
  have 0: "VString ''junk'' \<noteq> VNil \<and> \<not> named_type (VString ''junk'')"
    by (simp add: named_type_def)
  have 1: "1 < length ?cols \<and> 1 < length ?vals \<and> ?cols ! 1 \<in> set numeric_columns"
    by (simp add: numeric_columns_def)
  have 4: "valuesToContainerStats example_platform example_storage (take 1 ?cols) (take 1 ?vals) =
      Inr (emptyStats\<lparr>Memory := Some \<lparr>Usage = 5, WorkingSet = 0\<rparr>\<rparr>)"
    by (simp add: valuesToContainerStats_def valuesToContainerStats_body_def emptyStats_def
        set_field_def convertToUint64_def col_defs)
  have 5: "(0::real) \<le> 3 / 2 \<and> (3 / 2 :: real) < 2 ^ 64" by simp
  have 6: "\<lfloor>3 / 2 :: real\<rfloor> = 1" by simp
  from convertToUint64_accepts
    [of example_platform _ _ _ "3 / 2" "VString ''junk''" 1 ?cols ?vals UnknownType example_storage]
    0 1 4 5 6
  have "(\<exists>w. convertToUint64 example_platform (VFloat64 (Finite (3 / 2))) = Inr w \<and> uint w = 1) \<and>
    convertToUint64 example_platform (VString ''junk'') = Inl UnknownType \<and>
    valuesToContainerStats example_platform example_storage ?cols ?vals =
      Inl (column_error (?cols ! 1) (?vals ! 1) UnknownType)"
    by simp
  then show ?thesis by (simp add: column_error_def col_defs)
qed

text \<open>
  The claim as stated fails for an unsigned integer of a width that the switch does not
  name: a \<open>uint8\<close> is not accepted.
\<close>

theorem convertToUint64_rejects_uint8:
  "convertToUint64 example_platform (VUint8 5) = Inl UnknownType"
  by (simp add: convertToUint64_def)

text \<open>
  Claim C7: when an append triggers the flush, the closure run under the lock replaces
  the pending batch by an empty one and records the time of the flush; when the write
  to the store then fails, \<open>AddStats\<close> returns the wrapped error, and the rows handed to
  the store are not put back.

  In the theorem the sample has \<open>Cpu\<close> and \<open>Memory\<close>, \<open>readyToFlush\<close> answers yes, and
  the store refuses the batch, which is the pending rows followed by the rows of the
  sample. \<open>AddStats_locked\<close> is the closure: it returns the storage with no pending row
  and with the new \<open>lastWrite\<close>, and that is the storage \<open>AddStats\<close> leaves, but for
  the record of the call.
\<close>

theorem AddStats_flush_failure:
  assumes "Cpu stats = Some cpu" "Memory stats = Some mem"
    and "client self = Some c"
    and "call_readyToFlush env self"
    and "writeSeries c (series self @ rows_of self stats) = Some msg"
  shows "\<exists>h'. AddStats_locked env self ref stats h =
                 Inr (self\<lparr>series := [], lastWrite := now_stamp env\<rparr>, h',
                      series self @ rows_of self stats) \<and>
              AddStats env self ref (Some stats) h =
                (Some (ErrWriteFailed msg),
                 self\<lparr>series := [], lastWrite := now_stamp env,
                      client := Some (c\<lparr>calls := calls c @
                                  [WriteCall (series self @ rows_of self stats) Microsecond]\<rparr>)\<rparr>,
                 h')"
proof -
  from AddStats_locked_eq [OF assms(1,2), of env self ref h] assms(4)
  obtain h' where l: "AddStats_locked env self ref stats h =
      Inr (self\<lparr>series := [], lastWrite := now_stamp env\<rparr>, h', series self @ rows_of self stats)"
    by auto
  show ?thesis
    by (rule exI [of _ h']) (simp add: l AddStats_def assms(1,2,3,5) Let_def rows_of_nonempty)
qed

theorem AddStats_flush_failure_witness:
  "call_readyToFlush env_due example_storage \<and>
   fst (AddStats env_due example_storage example_ref (Some example_stats) example_heap) =
     Some (ErrWriteFailed ''connection refused'') \<and>
   series (fst (snd
     (AddStats env_due example_storage example_ref (Some example_stats) example_heap))) = [] \<and>
   lastWrite (fst (snd
     (AddStats env_due example_storage example_ref (Some example_stats) example_heap))) =
     \<lparr>unixSec = 200, nsec = 5\<rparr>"
proof -
  have cl: "client example_storage = Some example_client" by (simp add: example_storage_def)
  have w: "writeSeries example_client
      (series example_storage @ rows_of example_storage example_stats) =
      Some ''connection refused''" by (simp add: example_client_def)
  from AddStats_flush_failure [OF example_stats_valid cl due_ready w, of example_ref example_heap]
  show ?thesis using due_ready by (auto simp: env_due_def)
qed

text \<open>
  Claim C8: a call of \<open>AddStats\<close> with a nil sample, or with a sample whose \<open>Cpu\<close> or
  \<open>Memory\<close> is nil, returns no error and leaves the pending batch and the time of the
  last flush as they were. The whole storage is unchanged, and so is the memory.
\<close>

theorem AddStats_invalid_sample:
  "AddStats env self ref None h = (None, self, h) \<and>
   AddStats env self ref (Some (stats\<lparr>Cpu := None\<rparr>)) h = (None, self, h) \<and>
   AddStats env self ref (Some (stats\<lparr>Memory := None\<rparr>)) h = (None, self, h)"
  by (simp add: AddStats_def)

text \<open>
  Claim C9: for every container name, \<open>RecentStats\<close> with a count of zero returns an
  empty result and no error, and makes no query: the storage, with the client's record
  of calls, is unchanged.
\<close>

theorem RecentStats_zero:
  "RecentStats pf self containerName 0 = (Inr [], self)"
  by (simp add: RecentStats_def)

text \<open>
  Claim C10: a sample returned by \<open>valuesToContainerStats\<close> has \<open>Cpu\<close>, \<open>Memory\<close> and
  \<open>Network\<close> that are not nil, with a zero \<open>Network\<close> when the row had no network
  column, and at most one filesystem entry; the write path, for its part, gives a
  sample without network statistics a core row without any network column.
\<close>

theorem reconstructed_sample_shape:
  assumes "valuesToContainerStats pf self columns values = Inr stats"
  shows "Cpu stats \<noteq> None \<and> Memory stats \<noteq> None \<and> Network stats \<noteq> None \<and>
         length (Filesystem stats) \<le> 1 \<and>
         (set columns \<inter> set network_columns = {} \<longrightarrow> Network stats = Some zeroNetwork) \<and>
         (Cpu sample = Some cpu \<and> Memory sample = Some mem \<and> Network sample = None \<longrightarrow>
            (\<exists>h' c v. containerStatsToValues self' ref sample h = Inr (h', c, v) \<and>
               set (elems (str_mem h') c) \<inter> set network_columns = {}))"
proof -
  from assms have l: "valuesToContainerStats_loop pf self columns values emptyStats = Inr stats"
    by (simp add: valuesToContainerStats_def)
  from loop_ptrs_ok [OF emptyStats_ok l] have "ptrs_ok stats" .
  moreover have "set columns \<inter> set network_columns = {} \<longrightarrow> Network stats = Some zeroNetwork"
    using loop_Network [OF _ l] by (auto simp: emptyStats_def zeroNetwork_def)
  moreover have "\<exists>h' c v. containerStatsToValues self' ref sample h = Inr (h', c, v) \<and>
               set (elems (str_mem h') c) \<inter> set network_columns = {}"
    if "Cpu sample = Some cpu" "Memory sample = Some mem" "Network sample = None"
    using containerStatsToValues_holds [OF that(1,2), of self' ref h] that(3)
    by (auto simp: holds_def core_columns_def network_columns_def col_defs split: sum.splits)
  ultimately show ?thesis by (simp add: ptrs_ok_def)
qed

text \<open>
  A row with two device columns and a limit: one entry, the second device in it. A
  sample without network statistics: a core row of three columns.
\<close>

theorem reconstructed_sample_shape_witness:
  "valuesToContainerStats example_platform example_storage
     [colFsDevice, colFsLimit, colFsDevice] [VString ''sda'', VUint64 100, VString ''sdb''] =
     Inr (emptyStats\<lparr>Filesystem := [\<lparr>Device = ''sdb'', Limit = 100, FsUsage = 0\<rparr>]\<rparr>) \<and>
   set [colFsDevice, colFsLimit, colFsDevice] \<inter> set network_columns = {} \<and>
   Network (emptyStats\<lparr>Filesystem := [\<lparr>Device = ''sdb'', Limit = 100, FsUsage = 0\<rparr>]\<rparr>) =
     Some zeroNetwork \<and>
   length (Filesystem (emptyStats\<lparr>Filesystem := [\<lparr>Device = ''sdb'', Limit = 100, FsUsage = 0\<rparr>]\<rparr>))
     \<le> 1 \<and>
   Network example_stats_two_devices = None \<and>
   (\<exists>h' c v. containerStatsToValues example_storage example_ref example_stats_two_devices
                example_heap = Inr (h', c, v) \<and>
      set (elems (str_mem h') c) \<inter> set network_columns = {})"
proof -
  have r: "valuesToContainerStats example_platform example_storage
     [colFsDevice, colFsLimit, colFsDevice] [VString ''sda'', VUint64 100, VString ''sdb''] =
     Inr (emptyStats\<lparr>Filesystem := [\<lparr>Device = ''sdb'', Limit = 100, FsUsage = 0\<rparr>]\<rparr>)"
    by (simp add: valuesToContainerStats_def valuesToContainerStats_body_def emptyStats_def
        set_Filesystem_def convertToUint64_def col_defs)
  have n: "set [colFsDevice, colFsLimit, colFsDevice] \<inter> set network_columns = {}"
    by (simp add: network_columns_def col_defs)
  have w: "Network example_stats_two_devices = None"
    by (simp add: example_stats_two_devices_def)
  from reconstructed_sample_shape
    [OF r, of example_stats_two_devices _ _ example_storage example_ref example_heap]
    n r w example_stats_two_devices_valid
  show ?thesis by simp
qed

end
